theory Spec2Isabelle
  imports Complex_Main
begin

section \<open>Data model\<close>

text \<open>
  Python strings are modelled as \<open>string\<close>: one \<open>char\<close> per code point, restricted to the
  code points 0..255, so \<open>length\<close> is Python's \<open>len\<close>. Python floats are modelled as
  \<open>real\<close>: the scores and thresholds are compared and clamped, and every division of the
  source has a divisor that is checked first.
\<close>

datatype SegmentType = SENTENCE | PARAGRAPH | TABLE | LIST_ITEM | HEADING

record Segment =
  seg_text :: string
  seg_start :: int
  seg_end :: int
  seg_type :: SegmentType

text \<open>
  \<open>Segment\<close> defines \<open>__len__\<close> as the length of its text and no \<open>__bool__\<close>, so the
  truth value of a segment is "its text is not empty". The truth value of an optional
  segment, as in \<open>if not t_seg\<close>, is therefore false for \<open>None\<close> and for a segment with
  empty text.
\<close>

definition Segment_len :: "Segment \<Rightarrow> nat" where
  "Segment_len seg = length (seg_text seg)"

definition truthy :: "Segment option \<Rightarrow> bool" where
  "truthy s = (case s of None \<Rightarrow> False | Some seg \<Rightarrow> Segment_len seg \<noteq> 0)"

record AlignedPair =
  t_seg :: "Segment option"
  v_seg :: "Segment option"
  similarity :: real

definition is_empty :: "AlignedPair \<Rightarrow> bool" where
  "is_empty pair = (t_seg pair = None \<and> v_seg pair = None)"

datatype source = Src_T | Src_V | Src_AMBIGUOUS | Src_LLM

text \<open>
  The justification string of a \<open>Choice\<close> is built by an f-string from a fixed template
  and numbers; it is kept as the template with its arguments.
\<close>

datatype reason =
    No_segments_available
  | T_segment_missing
  | V_segment_missing
  | Ambiguous_scores_too_close real real
  | V_has_structure SegmentType
  | T_score_higher_by real
  | V_score_higher_by real
  | Default_text_first
  | Pending_adjudication

record Choice =
  source :: source
  selected_text :: string
  reason :: reason

record HeuristicsConfig =
  score_margin :: real
  ambiguity_band :: real

datatype pick = A | B

record AdjudicationResult =
  pick :: pick
  res_text :: string

record AmbiguousPair =
  amb_t_seg :: Segment
  amb_v_seg :: Segment
  context_before :: string
  context_after :: string
  amb_page_num :: nat
  amb_segment_idx :: nat

record ProvenanceRecord =
  page_num :: nat
  segment_idx :: nat
  prov_source :: source
  llm_pick :: "pick option"
  t_score :: real
  v_score :: real
  chosen_text :: string
  backend_used :: "string option"
  timestamp :: int

datatype py_exception = IndexError | ZeroDivisionError | Exception string

section \<open>Python string operations\<close>

definition isalnum :: "char \<Rightarrow> bool" where
  "isalnum c =
     (let n = (of_char c :: nat)
      in (48 \<le> n \<and> n \<le> 57) \<or> (65 \<le> n \<and> n \<le> 90) \<or> (97 \<le> n \<and> n \<le> 122)
         \<or> n = 170 \<or> n = 178 \<or> n = 179 \<or> n = 181 \<or> n = 185 \<or> n = 186
         \<or> (188 \<le> n \<and> n \<le> 190) \<or> (192 \<le> n \<and> n \<le> 214)
         \<or> (216 \<le> n \<and> n \<le> 246) \<or> (248 \<le> n \<and> n \<le> 255))"

definition isspace :: "char \<Rightarrow> bool" where
  "isspace c =
     (let n = (of_char c :: nat)
      in (9 \<le> n \<and> n \<le> 13) \<or> (28 \<le> n \<and> n \<le> 32) \<or> n = 133 \<or> n = 160)"

definition lower_char :: "char \<Rightarrow> char" where
  "lower_char c =
     (let n = (of_char c :: nat)
      in if (65 \<le> n \<and> n \<le> 90) \<or> (192 \<le> n \<and> n \<le> 214) \<or> (216 \<le> n \<and> n \<le> 222)
         then char_of (n + 32) else c)"

definition lower :: "string \<Rightarrow> string" where
  "lower s = map lower_char s"

definition strip :: "string \<Rightarrow> string" where
  "strip s = rev (dropWhile isspace (rev (dropWhile isspace s)))"

text \<open>\<open>str.split()\<close> without a separator: the maximal runs of non-whitespace characters.\<close>

fun split_from :: "string \<Rightarrow> string \<Rightarrow> string list" where
  "split_from cur [] = (if cur = [] then [] else [cur])"
| "split_from cur (c # cs) =
     (if isspace c then (if cur = [] then split_from [] cs else cur # split_from [] cs)
      else split_from (cur @ [c]) cs)"

definition split :: "string \<Rightarrow> string list" where
  "split s = split_from [] s"

fun join :: "string \<Rightarrow> string list \<Rightarrow> string" where
  "join sep [] = []"
| "join sep [x] = x"
| "join sep (x # y # ys) = x @ sep @ join sep (y # ys)"

text \<open>
  \<open>str.count(sub)\<close>: the number of non-overlapping occurrences of \<open>sub\<close>, scanning from
  the left; for the empty \<open>sub\<close> Python returns \<open>len(text) + 1\<close>.
\<close>

function count_from :: "string \<Rightarrow> string \<Rightarrow> nat" where
  "count_from sub s =
     (if s = [] \<or> sub = [] then 0
      else if take (length sub) s = sub then 1 + count_from sub (drop (length sub) s)
      else count_from sub (tl s))"
  by pat_completeness auto
termination
  by (relation "measure (\<lambda>(sub, s). length s)") auto

definition str_count :: "string \<Rightarrow> string \<Rightarrow> nat" where
  "str_count s sub = (if sub = [] then length s + 1 else count_from sub s)"

text \<open>
  The slices \<open>s[-n:]\<close> and \<open>s[:n]\<close> for a non-negative \<open>n\<close>; \<open>s[-0:]\<close> is the whole
  string.
\<close>

definition last_chars :: "nat \<Rightarrow> string \<Rightarrow> string" where
  "last_chars n s = (if n = 0 then s else drop (length s - n) s)"

definition first_chars :: "nat \<Rightarrow> string \<Rightarrow> string" where
  "first_chars n s = take n s"

section \<open>Scorer and Selector (heuristics.py)\<close>

definition structural_bonus :: "SegmentType \<Rightarrow> real" where
  "structural_bonus ty =
     (if ty = TABLE then 0.2 else if ty = LIST_ITEM then 0.15
      else if ty = HEADING then 0.1 else 0)"

text \<open>
  \<open>score_segment\<close>, as the source has it: the weird-character count is
  \<open>text.count("")\<close>, with the empty string as its argument.
\<close>

definition score_segment :: "Segment \<Rightarrow> real" where
  "score_segment seg =
     (if seg_text seg = [] then 0
      else
        let txt = seg_text seg;
            alnum_count = length (filter isalnum txt);
            alnum_ratio = (if length txt > 0 then real alnum_count / real (length txt) else 0);
            weird_count = str_count txt [];
            weird_rate = (if length txt > 0 then real weird_count / real (length txt) else 0);
            tokens = split txt;
            avg_token_len =
              (if tokens \<noteq> [] then real (sum_list (map length tokens)) / real (length tokens)
               else 0);
            score = alnum_ratio * 0.6 + (1 - weird_rate) * 0.3 + min (avg_token_len / 10) 0.1
                    + structural_bonus (seg_type seg)
        in min (max score 0) 1)"

definition has_structure :: "Segment \<Rightarrow> bool" where
  "has_structure seg = (seg_type seg \<in> {TABLE, LIST_ITEM, HEADING})"

text \<open>
  \<open>choose_segment\<close>. The optional segments are tested by truth value; after the three
  guards both are segments with non-empty text. The division of rule 4 raises
  ZeroDivisionError on a zero divisor, which the model keeps as a branch.
\<close>

definition choose_segment ::
  "Segment option \<Rightarrow> Segment option \<Rightarrow> real \<Rightarrow> real \<Rightarrow> HeuristicsConfig
     \<Rightarrow> py_exception + Choice" where
  "choose_segment ts vs tsc vsc config =
     (if \<not> truthy ts \<and> \<not> truthy vs then
        Inr \<lparr>source = Src_T, selected_text = [], reason = No_segments_available\<rparr>
      else if \<not> truthy ts then
        Inr \<lparr>source = Src_V, selected_text = seg_text (the vs), reason = T_segment_missing\<rparr>
      else if \<not> truthy vs then
        Inr \<lparr>source = Src_T, selected_text = seg_text (the ts), reason = V_segment_missing\<rparr>
      else
        let t = the ts; v = the vs;
            score_diff = \<bar>tsc - vsc\<bar>;
            lt = length (seg_text t); lv = length (seg_text v);
            len_ratio = real (max lt lv) / real (min lt lv)
        in if score_diff < ambiguity_band config \<and> min lt lv = 0 then
             Inl ZeroDivisionError
           else if score_diff < ambiguity_band config \<and> len_ratio > 1.5 then
             Inr \<lparr>source = Src_AMBIGUOUS, selected_text = [],
                  reason = Ambiguous_scores_too_close score_diff len_ratio\<rparr>
           else if has_structure v \<and> \<not> has_structure t then
             Inr \<lparr>source = Src_V, selected_text = seg_text v,
                  reason = V_has_structure (seg_type v)\<rparr>
           else if tsc > vsc + score_margin config then
             Inr \<lparr>source = Src_T, selected_text = seg_text t,
                  reason = T_score_higher_by (tsc - vsc)\<rparr>
           else if vsc > tsc + score_margin config then
             Inr \<lparr>source = Src_V, selected_text = seg_text v,
                  reason = V_score_higher_by (vsc - tsc)\<rparr>
           else
             Inr \<lparr>source = Src_T, selected_text = seg_text t, reason = Default_text_first\<rparr>)"

section \<open>Aligner (alignment.py)\<close>

definition normalize_text :: "string \<Rightarrow> string" where
  "normalize_text s = join '' '' (split (strip (lower s)))"

text \<open>
  \<open>fuzz.ratio\<close> comes from the rapidfuzz library; the aligner is modelled over any
  similarity function \<open>ratio\<close> on normalised texts, with values read on the scale 0..100.
\<close>

type_synonym ratio_fn = "string \<Rightarrow> string \<Rightarrow> real"

definition window_size :: nat where
  "window_size = 3"

text \<open>One pass of the window search: a later candidate wins only when strictly better.\<close>

definition best_step :: "ratio_fn \<Rightarrow> string \<Rightarrow> string list \<Rightarrow> nat \<Rightarrow> real \<times> nat \<Rightarrow> real \<times> nat" where
  "best_step ratio t_text v_texts i best =
     (let sim = ratio t_text (v_texts ! i)
      in if sim > fst best then (sim, i) else best)"

definition best_match :: "ratio_fn \<Rightarrow> string \<Rightarrow> string list \<Rightarrow> nat \<Rightarrow> nat \<Rightarrow> real \<times> nat" where
  "best_match ratio t_text v_texts v_idx n =
     fold (best_step ratio t_text v_texts) [v_idx ..< min (v_idx + window_size) n] (0, v_idx)"

definition t_only :: "Segment \<Rightarrow> AlignedPair" where
  "t_only seg = \<lparr>t_seg = Some seg, v_seg = None, similarity = 0\<rparr>"

definition v_only :: "Segment \<Rightarrow> AlignedPair" where
  "v_only seg = \<lparr>t_seg = None, v_seg = Some seg, similarity = 0\<rparr>"

lemma best_step_snd:
  "snd (best_step ratio t_text v_texts i b) = i \<or> snd (best_step ratio t_text v_texts i b) = snd b"
  by (simp add: best_step_def Let_def)

lemma fold_best_step_snd:
  "snd (fold (best_step ratio t_text v_texts) xs b) \<in> insert (snd b) (set xs)"
proof (induction xs arbitrary: b)
  case Nil
  show ?case by simp
next
  case (Cons a xs)
  from Cons.IH [of "best_step ratio t_text v_texts a b"] best_step_snd [of ratio t_text v_texts a b]
  show ?case by auto
qed

lemma best_match_lower: "v_idx \<le> snd (best_match ratio t_text v_texts v_idx n)"
  using fold_best_step_snd [of ratio t_text v_texts "[v_idx ..< min (v_idx + window_size) n]" "(0, v_idx)"]
  by (auto simp: best_match_def)

lemma best_match_upper:
  "v_idx < n \<Longrightarrow> snd (best_match ratio t_text v_texts v_idx n) < n"
  using fold_best_step_snd [of ratio t_text v_texts "[v_idx ..< min (v_idx + window_size) n]" "(0, v_idx)"]
  by (auto simp: best_match_def)

text \<open>
  The \<open>while\<close> loop of \<open>align_segments\<close>, with the two cursors and the list of pairs built
  so far. Every index read is below the length of its list.
\<close>

function align_loop ::
  "ratio_fn \<Rightarrow> Segment list \<Rightarrow> Segment list \<Rightarrow> string list \<Rightarrow> string list
     \<Rightarrow> nat \<Rightarrow> nat \<Rightarrow> AlignedPair list \<Rightarrow> AlignedPair list" where
  "align_loop ratio t_segments v_segments t_texts v_texts t_idx v_idx aligned_pairs =
     (if t_idx < length t_segments \<or> v_idx < length v_segments then
        if t_idx \<ge> length t_segments then
          align_loop ratio t_segments v_segments t_texts v_texts t_idx (v_idx + 1)
            (aligned_pairs @ [v_only (v_segments ! v_idx)])
        else if v_idx \<ge> length v_segments then
          align_loop ratio t_segments v_segments t_texts v_texts (t_idx + 1) v_idx
            (aligned_pairs @ [t_only (t_segments ! t_idx)])
        else
          let best = best_match ratio (t_texts ! t_idx) v_texts v_idx (length v_segments);
              best_similarity = fst best; best_v_idx = snd best
          in if best_similarity > 50 then
               align_loop ratio t_segments v_segments t_texts v_texts (t_idx + 1) (best_v_idx + 1)
                 (aligned_pairs
                  @ map (\<lambda>i. v_only (v_segments ! i)) [v_idx ..< best_v_idx]
                  @ [\<lparr>t_seg = Some (t_segments ! t_idx), v_seg = Some (v_segments ! best_v_idx),
                      similarity = best_similarity / 100\<rparr>])
             else
               align_loop ratio t_segments v_segments t_texts v_texts (t_idx + 1) v_idx
                 (aligned_pairs @ [t_only (t_segments ! t_idx)])
      else aligned_pairs)"
  by pat_completeness auto
termination
proof (relation "measure (\<lambda>(ratio, ts, vs, tt, vt, i, j, acc). (length ts - i) + (length vs - j))")
  show "wf (measure (\<lambda>(ratio, ts, vs, tt, vt, i, j, acc). (length ts - i) + (length vs - j)))"
    by simp
next
  fix ratio :: ratio_fn and t_segments v_segments :: "Segment list"
    and t_texts v_texts :: "string list" and t_idx v_idx :: nat
    and aligned_pairs :: "AlignedPair list" and best best_similarity best_v_idx
  assume "\<not> length t_segments \<le> t_idx"
    and "best = best_match ratio (t_texts ! t_idx) v_texts v_idx (length v_segments)"
    and "best_v_idx = snd best"
  then show "((ratio, t_segments, v_segments, t_texts, v_texts, t_idx + 1, best_v_idx + 1,
        aligned_pairs @ map (\<lambda>i. v_only (v_segments ! i)) [v_idx ..< best_v_idx]
          @ [\<lparr>t_seg = Some (t_segments ! t_idx), v_seg = Some (v_segments ! best_v_idx),
              similarity = best_similarity / 100\<rparr>]),
       (ratio, t_segments, v_segments, t_texts, v_texts, t_idx, v_idx, aligned_pairs))
      \<in> measure (\<lambda>(ratio, ts, vs, tt, vt, i, j, acc). (length ts - i) + (length vs - j))"
    using best_match_lower [of v_idx ratio "t_texts ! t_idx" v_texts "length v_segments"]
    by simp
qed auto

definition align_segments :: "ratio_fn \<Rightarrow> Segment list \<Rightarrow> Segment list \<Rightarrow> AlignedPair list" where
  "align_segments ratio t_segments v_segments =
     (if t_segments = [] \<and> v_segments = [] then []
      else
        let t_texts = map (\<lambda>seg. normalize_text (seg_text seg)) t_segments;
            v_texts = map (\<lambda>seg. normalize_text (seg_text seg)) v_segments
        in align_loop ratio t_segments v_segments t_texts v_texts 0 0 [])"

section \<open>Adjudicator Orchestrator (adjudicator.py)\<close>

text \<open>
  \<open>build_context\<close>. The index is the non-negative position that \<open>enumerate\<close> gives.
  The only read that can be out of range is \<open>segments[idx - 1]\<close>, which Python answers
  with IndexError; the reads of the two loops and \<open>segments[idx + 1]\<close> are in range by
  their bounds. \<open>max(0, idx - 3)\<close> is the truncating subtraction on \<open>nat\<close>.
\<close>

definition build_context :: "Segment list \<Rightarrow> nat \<Rightarrow> nat \<Rightarrow> py_exception + string \<times> string" where
  "build_context segments idx max_length =
     (if idx > 0 \<and> \<not> idx - 1 < length segments then Inl IndexError
      else
        let before_text =
              (if idx > 0 then
                 last_chars max_length
                   (fold (\<lambda>i acc. seg_text (segments ! i) @ '' '' @ acc)
                      [idx - 3 ..< idx - 1]
                      (last_chars max_length (seg_text (segments ! (idx - 1)))))
               else []);
            after_text =
              (if idx + 1 < length segments then
                 first_chars max_length
                   (fold (\<lambda>i acc. acc @ '' '' @ first_chars max_length (seg_text (segments ! i)))
                      [idx + 2 ..< min (length segments) (idx + 4)]
                      (first_chars max_length (seg_text (segments ! (idx + 1)))))
               else [])
        in Inr (before_text, after_text))"

text \<open>
  An adjudication backend: its class name and its \<open>select\<close> method, which may keep state
  between calls (\<open>'b\<close>) and either returns a result or raises an exception.
\<close>

record 'b AdjudicatorBackend =
  backend_name :: string
  select :: "'b \<Rightarrow> string \<Rightarrow> string \<Rightarrow> string \<Rightarrow> string \<Rightarrow> (py_exception + AdjudicationResult) \<times> 'b"

text \<open>
  \<open>adjudicate_batch\<close>: the \<open>except Exception\<close> handler replaces a raised exception by
  the result \<open>pick = A\<close> with the T text (the diagnostic it prints is not part of the
  returned value).
\<close>

definition select_call ::
  "'b AdjudicatorBackend \<Rightarrow> 'b \<Rightarrow> AmbiguousPair \<Rightarrow> (py_exception + AdjudicationResult) \<times> 'b" where
  "select_call backend st pair =
     select backend st (first_chars 200 (context_before pair)) (seg_text (amb_t_seg pair))
       (seg_text (amb_v_seg pair)) (first_chars 200 (context_after pair))"

fun adjudicate_batch ::
  "AmbiguousPair list \<Rightarrow> 'b AdjudicatorBackend \<Rightarrow> 'b \<Rightarrow> AdjudicationResult list \<times> 'b" where
  "adjudicate_batch [] backend st = ([], st)"
| "adjudicate_batch (pair # pairs) backend st =
     (case select_call backend st pair of
        (Inr result, st') \<Rightarrow>
          (case adjudicate_batch pairs backend st' of (results, st'') \<Rightarrow> (result # results, st''))
      | (Inl e, st') \<Rightarrow>
          (case adjudicate_batch pairs backend st' of
             (results, st'') \<Rightarrow>
               (\<lparr>pick = A, res_text = seg_text (amb_t_seg pair)\<rparr> # results, st'')))"

section \<open>Provenance records (provenance.py)\<close>

text \<open>
  The class body of \<open>ProvenanceRecord\<close> runs once, when the module is imported; the
  default of the field \<open>timestamp\<close> is the value \<open>datetime.now()\<close> has at that moment.
  A constructor call without a \<open>timestamp\<close> argument takes that stored default.
\<close>

record ProvenanceRecord_class =
  timestamp_default :: int

definition define_ProvenanceRecord :: "int \<Rightarrow> ProvenanceRecord_class" where
  "define_ProvenanceRecord now = \<lparr>timestamp_default = now\<rparr>"

definition new_ProvenanceRecord ::
  "ProvenanceRecord_class \<Rightarrow> nat \<Rightarrow> nat \<Rightarrow> source \<Rightarrow> pick option \<Rightarrow> real \<Rightarrow> real \<Rightarrow> string
     \<Rightarrow> string option \<Rightarrow> int option \<Rightarrow> ProvenanceRecord" where
  "new_ProvenanceRecord cls pn idx src lp tsc vsc txt bu ts =
     \<lparr>page_num = pn, segment_idx = idx, prov_source = src, llm_pick = lp, t_score = tsc,
      v_score = vsc, chosen_text = txt, backend_used = bu,
      timestamp = (case ts of None \<Rightarrow> timestamp_default cls | Some t \<Rightarrow> t)\<rparr>"

section \<open>Pipeline (pipeline.py)\<close>

record page_state =
  page_segments :: "string list"
  page_records :: "ProvenanceRecord list"
  ambiguous_pairs :: "AmbiguousPair list"

text \<open>
  One iteration of the scoring and selection loop over \<open>enumerate(aligned_pairs)\<close>. In
  the AMBIGUOUS branch the source rebinds the local \<open>choice\<close> to a T fallback and then
  goes to the next pair: the new \<open>choice\<close> is not read again, and nothing is appended to
  the page's segments or records there.
\<close>

definition select_step ::
  "HeuristicsConfig \<Rightarrow> ProvenanceRecord_class \<Rightarrow> nat \<Rightarrow> Segment list \<Rightarrow> Segment list
     \<Rightarrow> nat \<times> AlignedPair \<Rightarrow> page_state \<Rightarrow> py_exception + page_state" where
  "select_step config cls pn t_segments v_segments ip st =
     (let seg_idx = fst ip; pair = snd ip
      in if is_empty pair then Inr st
         else
           let tsc = (if truthy (t_seg pair) then score_segment (the (t_seg pair)) else 0);
               vsc = (if truthy (v_seg pair) then score_segment (the (v_seg pair)) else 0)
           in case choose_segment (t_seg pair) (v_seg pair) tsc vsc config of
                Inl e \<Rightarrow> Inl e
              | Inr choice \<Rightarrow>
                  if source choice = Src_AMBIGUOUS then
                    (case (if truthy (t_seg pair) \<and> truthy (v_seg pair) then
                             case build_context
                                    (if truthy (t_seg pair) then t_segments else v_segments)
                                    (if truthy (t_seg pair) then seg_idx else seg_idx) 200 of
                               Inl e \<Rightarrow> Inl e
                             | Inr ctx \<Rightarrow>
                                 Inr (st\<lparr>ambiguous_pairs := ambiguous_pairs st @
                                        [\<lparr>amb_t_seg = the (t_seg pair),
                                          amb_v_seg = the (v_seg pair),
                                          context_before = fst ctx, context_after = snd ctx,
                                          amb_page_num = pn, amb_segment_idx = seg_idx\<rparr>]\<rparr>)
                           else Inr st) of
                       Inl e \<Rightarrow> Inl e
                     | Inr st' \<Rightarrow>
                         let txt = (if truthy (t_seg pair) then seg_text (the (t_seg pair))
                                    else seg_text (the (v_seg pair)));
                             choice = \<lparr>source = Src_T, selected_text = txt,
                                       reason = Pending_adjudication\<rparr>
                         in Inr st')
                  else
                    Inr (st\<lparr>page_segments := page_segments st @ [selected_text choice],
                            page_records := page_records st @
                              [new_ProvenanceRecord cls pn seg_idx (source choice) None tsc vsc
                                 (selected_text choice) None None]\<rparr>))"

fun select_loop ::
  "HeuristicsConfig \<Rightarrow> ProvenanceRecord_class \<Rightarrow> nat \<Rightarrow> Segment list \<Rightarrow> Segment list
     \<Rightarrow> (nat \<times> AlignedPair) list \<Rightarrow> page_state \<Rightarrow> py_exception + page_state" where
  "select_loop config cls pn t_segments v_segments [] st = Inr st"
| "select_loop config cls pn t_segments v_segments (ip # rest) st =
     (case select_step config cls pn t_segments v_segments ip st of
        Inl e \<Rightarrow> Inl e
      | Inr st' \<Rightarrow> select_loop config cls pn t_segments v_segments rest st')"

text \<open>
  The loop over \<open>enumerate(adjudication_results)\<close>: each result is appended after what
  the page already holds, with a record of source LLM.
\<close>

definition adjudicated_text :: "AmbiguousPair \<Rightarrow> AdjudicationResult \<Rightarrow> string" where
  "adjudicated_text pair result =
     (if pick result = A then seg_text (amb_t_seg pair) else seg_text (amb_v_seg pair))"

definition adjudicated_record ::
  "ProvenanceRecord_class \<Rightarrow> string \<Rightarrow> AmbiguousPair \<Rightarrow> AdjudicationResult \<Rightarrow> ProvenanceRecord" where
  "adjudicated_record cls bname pair result =
     new_ProvenanceRecord cls (amb_page_num pair) (amb_segment_idx pair) Src_LLM
       (Some (pick result))
       (if truthy (Some (amb_t_seg pair)) then score_segment (amb_t_seg pair) else 0)
       (if truthy (Some (amb_v_seg pair)) then score_segment (amb_v_seg pair) else 0)
       (adjudicated_text pair result) (Some bname) None"

fun emit_adjudicated ::
  "ProvenanceRecord_class \<Rightarrow> string \<Rightarrow> (nat \<times> AdjudicationResult) list \<Rightarrow> page_state
     \<Rightarrow> py_exception + page_state" where
  "emit_adjudicated cls bname [] st = Inr st"
| "emit_adjudicated cls bname (ir # rest) st =
     (if fst ir < length (ambiguous_pairs st) then
        let pair = ambiguous_pairs st ! fst ir
        in emit_adjudicated cls bname rest
             (st\<lparr>page_segments := page_segments st @ [adjudicated_text pair (snd ir)],
                 page_records := page_records st @
                   [adjudicated_record cls bname pair (snd ir)]\<rparr>)
      else Inl IndexError)"

text \<open>
  One page, from its two segment sequences to the segments and records it contributes.
  \<open>backend\<close> is \<open>None\<close> when no adjudicator is configured.
\<close>

definition process_page ::
  "ratio_fn \<Rightarrow> HeuristicsConfig \<Rightarrow> 'b AdjudicatorBackend option \<Rightarrow> ProvenanceRecord_class
     \<Rightarrow> nat \<Rightarrow> Segment list \<Rightarrow> Segment list \<Rightarrow> 'b
     \<Rightarrow> py_exception + (string list \<times> ProvenanceRecord list) \<times> 'b" where
  "process_page ratio config backend cls pn t_segments v_segments bst =
     (let aligned_pairs = align_segments ratio t_segments v_segments
      in case select_loop config cls pn t_segments v_segments (enumerate 0 aligned_pairs)
                \<lparr>page_segments = [], page_records = [], ambiguous_pairs = []\<rparr> of
           Inl e \<Rightarrow> Inl e
         | Inr st \<Rightarrow>
             (case backend of
                None \<Rightarrow> Inr ((page_segments st, page_records st), bst)
              | Some be \<Rightarrow>
                  if ambiguous_pairs st \<noteq> [] then
                    (case adjudicate_batch (ambiguous_pairs st) be bst of
                       (results, bst') \<Rightarrow>
                         (case emit_adjudicated cls (backend_name be) (enumerate 0 results) st of
                            Inl e \<Rightarrow> Inl e
                          | Inr st' \<Rightarrow> Inr ((page_segments st', page_records st'), bst')))
                  else Inr ((page_segments st, page_records st), bst)))"

text \<open>
  The loop over the pages of a document, each page given by its T and V segment
  sequences, and the assembly of the markdown (before the annotation pass).
\<close>

fun extract_pages ::
  "ratio_fn \<Rightarrow> HeuristicsConfig \<Rightarrow> 'b AdjudicatorBackend option \<Rightarrow> ProvenanceRecord_class
     \<Rightarrow> (nat \<times> Segment list \<times> Segment list) list \<Rightarrow> string list \<times> ProvenanceRecord list \<Rightarrow> 'b
     \<Rightarrow> py_exception + (string list \<times> ProvenanceRecord list) \<times> 'b" where
  "extract_pages ratio config backend cls [] acc bst = Inr (acc, bst)"
| "extract_pages ratio config backend cls (page # pages) acc bst =
     (case process_page ratio config backend cls (fst page) (fst (snd page)) (snd (snd page)) bst of
        Inl e \<Rightarrow> Inl e
      | Inr out \<Rightarrow>
          extract_pages ratio config backend cls pages
            (fst acc @ fst (fst out), snd acc @ snd (fst out)) (snd out))"

definition pipeline_extract ::
  "ratio_fn \<Rightarrow> HeuristicsConfig \<Rightarrow> 'b AdjudicatorBackend option \<Rightarrow> ProvenanceRecord_class
     \<Rightarrow> (Segment list \<times> Segment list) list \<Rightarrow> 'b
     \<Rightarrow> py_exception + string \<times> ProvenanceRecord list" where
  "pipeline_extract ratio config backend cls pages bst =
     (case extract_pages ratio config backend cls (enumerate 0 pages) ([], []) bst of
        Inl e \<Rightarrow> Inl e
      | Inr out \<Rightarrow> Inr (join [CHR 0x0A, CHR 0x0A] (fst (fst out)), snd (fst out)))"

text \<open>
  A similarity function for concrete runs: the normalised Indel similarity on the scale
  0..100, twice the length of a longest common subsequence over the sum of the lengths,
  and 100 for two empty strings.
\<close>

fun lcs :: "string \<Rightarrow> string \<Rightarrow> nat" where
  "lcs [] ys = 0"
| "lcs (x # xs) [] = 0"
| "lcs (x # xs) (y # ys) =
     (if x = y then Suc (lcs xs ys) else max (lcs (x # xs) ys) (lcs xs (y # ys)))"

definition indel_ratio :: ratio_fn where
  "indel_ratio s1 s2 =
     (if length s1 + length s2 = 0 then 100
      else 100 * real (2 * lcs s1 s2) / real (length s1 + length s2))"

text \<open>
  Two backends for concrete runs: one whose \<open>select\<close> always raises, and one that always
  picks candidate A, as the mock backend of the integration tests does.
\<close>

definition failing_select ::
  "unit \<Rightarrow> string \<Rightarrow> string \<Rightarrow> string \<Rightarrow> string \<Rightarrow> (py_exception + AdjudicationResult) \<times> unit" where
  "failing_select st ctx_before cand_a cand_b ctx_after = (Inl (Exception ''timeout''), st)"

definition FailingBackend :: "unit AdjudicatorBackend" where
  "FailingBackend = \<lparr>backend_name = ''FailingBackend'', select = failing_select\<rparr>"

definition mock_select ::
  "unit \<Rightarrow> string \<Rightarrow> string \<Rightarrow> string \<Rightarrow> string \<Rightarrow> (py_exception + AdjudicationResult) \<times> unit" where
  "mock_select st ctx_before cand_a cand_b ctx_after = (Inr \<lparr>pick = A, res_text = cand_a\<rparr>, st)"

definition MockAdjudicatorBackend :: "unit AdjudicatorBackend" where
  "MockAdjudicatorBackend = \<lparr>backend_name = ''MockAdjudicatorBackend'', select = mock_select\<rparr>"

section \<open>The scoring formula as the specification words it\<close>

text \<open>
  The formula of the specification, for a given marker character: the weird-character
  ratio is the fraction of the characters of the text that equal the marker.
\<close>

definition alnum_ratio :: "string \<Rightarrow> real" where
  "alnum_ratio s = (if s = [] then 0 else real (length (filter isalnum s)) / real (length s))"

definition weird_char_ratio :: "char \<Rightarrow> string \<Rightarrow> real" where
  "weird_char_ratio marker s = real (length (filter (\<lambda>c. c = marker) s)) / real (length s)"

definition avg_token_length :: "string \<Rightarrow> real" where
  "avg_token_length s =
     (if split s = [] then 0 else real (sum_list (map length (split s))) / real (length (split s)))"

definition spec_score :: "char \<Rightarrow> Segment \<Rightarrow> real" where
  "spec_score marker seg =
     min (max (0.6 * alnum_ratio (seg_text seg) + 0.3 * (1 - weird_char_ratio marker (seg_text seg))
               + min (avg_token_length (seg_text seg) / 10) 0.1
               + structural_bonus (seg_type seg)) 0) 1"

section \<open>Properties of the Scorer and the Selector\<close>

text \<open>
  The Selector is total: the division of rule 4 is reached only with two non-empty texts.
\<close>

lemma choose_segment_total: "\<exists>c. choose_segment ts vs tsc vsc config = Inr c"
proof (cases "truthy ts \<and> truthy vs")
  case True
  then have "min (length (seg_text (the ts))) (length (seg_text (the vs))) \<noteq> 0"
    by (auto simp: truthy_def Segment_len_def split: option.splits)
  with True show ?thesis
    by (simp add: choose_segment_def Let_def)
next
  case False
  then show ?thesis
    by (auto simp: choose_segment_def)
qed

text \<open>
  Claim C8. For every segment, of any text and any kind, \<open>score_segment\<close> returns a value
  in the interval from 0 to 1, and for every segment whose text is empty it returns
  exactly 0.
\<close>

theorem score_segment_bounds:
  "0 \<le> score_segment seg \<and> score_segment seg \<le> 1 \<and> score_segment (seg\<lparr>seg_text := []\<rparr>) = 0"
  by (simp add: score_segment_def Let_def)

text \<open>
  Claim C3. The claim reads the weird-character ratio as the fraction of characters equal
  to a marker character. The source counts occurrences of the empty string instead, which
  is one more than the length of the text, so its weird rate exceeds 1. On the one-letter
  sentence \<open>a\<close> the source scores 2/5, while the formula of the claim gives at least 7/10
  whatever the marker character is.
\<close>

theorem score_segment_weird_count_divergence:
  "score_segment \<lparr>seg_text = ''a'', seg_start = 0, seg_end = 1, seg_type = SENTENCE\<rparr> = 2 / 5
   \<and> spec_score marker \<lparr>seg_text = ''a'', seg_start = 0, seg_end = 1, seg_type = SENTENCE\<rparr> \<ge> 7 / 10"
  by (simp add: score_segment_def spec_score_def alnum_ratio_def weird_char_ratio_def
      avg_token_length_def str_count_def split_def isspace_def isalnum_def structural_bonus_def)

text \<open>
  Claim C2, as stated, fails: with both segments present, an empty T text and close
  scores, \<open>choose_segment\<close> returns source V, not AMBIGUOUS. A segment with empty text has
  length 0 and so is false in the guards for missing segments.
\<close>

theorem choose_segment_empty_text_not_ambiguous:
  "choose_segment (Some \<lparr>seg_text = [], seg_start = 0, seg_end = 0, seg_type = SENTENCE\<rparr>)
     (Some \<lparr>seg_text = ''abc'', seg_start = 0, seg_end = 3, seg_type = SENTENCE\<rparr>) 0 0
     \<lparr>score_margin = 0.15, ambiguity_band = 0.05\<rparr>
   = Inr \<lparr>source = Src_V, selected_text = ''abc'', reason = T_segment_missing\<rparr>
   \<and> source \<lparr>source = Src_V, selected_text = ''abc'', reason = T_segment_missing\<rparr> \<noteq> Src_AMBIGUOUS"
  by code_simp

text \<open>
  Claim C2, amended. For every call of \<open>choose_segment\<close> where both segments are present,
  one of them has empty text and the scores differ by less than the ambiguity band, the
  function raises no exception and treats the empty side as missing: it returns source V
  with the V text when only the T text is empty, source T with the T text when only the
  V text is empty, and source T with empty text when both are empty.
\<close>

theorem choose_segment_empty_side:
  assumes "seg_text t = [] \<or> seg_text v = []"
    and "\<bar>tsc - vsc\<bar> < ambiguity_band config"
  shows "choose_segment (Some t) (Some v) tsc vsc config =
     Inr (if seg_text t = [] \<and> seg_text v = [] then
            \<lparr>source = Src_T, selected_text = [], reason = No_segments_available\<rparr>
          else if seg_text t = [] then
            \<lparr>source = Src_V, selected_text = seg_text v, reason = T_segment_missing\<rparr>
          else \<lparr>source = Src_T, selected_text = seg_text t, reason = V_segment_missing\<rparr>)"
  using assms(1) by (auto simp: choose_segment_def truthy_def Segment_len_def)

theorem choose_segment_empty_side_witness:
  "choose_segment (Some \<lparr>seg_text = ''abc'', seg_start = 0, seg_end = 3, seg_type = SENTENCE\<rparr>)
     (Some \<lparr>seg_text = [], seg_start = 0, seg_end = 0, seg_type = TABLE\<rparr>) 0.5 0.48
     \<lparr>score_margin = 0.15, ambiguity_band = 0.05\<rparr>
   = Inr \<lparr>source = Src_T, selected_text = ''abc'', reason = V_segment_missing\<rparr>"
  using choose_segment_empty_side
    [of "\<lparr>seg_text = ''abc'', seg_start = 0, seg_end = 3, seg_type = SENTENCE\<rparr>"
        "\<lparr>seg_text = [], seg_start = 0, seg_end = 0, seg_type = TABLE\<rparr>"
        "0.5" "0.48" "\<lparr>score_margin = 0.15, ambiguity_band = 0.05\<rparr>"]
  by simp

section \<open>Properties of the provenance records\<close>

text \<open>
  Every record that the pipeline builds takes the default timestamp of the class.
\<close>

lemma select_step_timestamps:
  assumes "select_step config cls pn ts vs ip st = Inr st'"
    and "\<forall>r \<in> set (page_records st). timestamp r = timestamp_default cls"
  shows "\<forall>r \<in> set (page_records st'). timestamp r = timestamp_default cls"
  using assms
  by (auto simp: select_step_def Let_def new_ProvenanceRecord_def split: if_splits sum.splits)

lemma select_loop_timestamps:
  "select_loop config cls pn ts vs ips st = Inr st' \<Longrightarrow>
   \<forall>r \<in> set (page_records st). timestamp r = timestamp_default cls \<Longrightarrow>
   \<forall>r \<in> set (page_records st'). timestamp r = timestamp_default cls"
proof (induction ips arbitrary: st)
  case Nil
  then show ?case by simp
next
  case (Cons ip ips)
  from Cons.prems(1) obtain st1 where
    step: "select_step config cls pn ts vs ip st = Inr st1"
    and rest: "select_loop config cls pn ts vs ips st1 = Inr st'"
    by (auto split: sum.splits)
  from select_step_timestamps [OF step Cons.prems(2)] Cons.IH [OF rest] show ?case
    by blast
qed

lemma emit_adjudicated_timestamps:
  "emit_adjudicated cls bname irs st = Inr st' \<Longrightarrow>
   \<forall>r \<in> set (page_records st). timestamp r = timestamp_default cls \<Longrightarrow>
   \<forall>r \<in> set (page_records st'). timestamp r = timestamp_default cls"
proof (induction irs arbitrary: st)
  case Nil
  then show ?case by simp
next
  case (Cons ir irs)
  let ?st = "st\<lparr>page_segments := page_segments st @
                  [adjudicated_text (ambiguous_pairs st ! fst ir) (snd ir)],
                page_records := page_records st @
                  [adjudicated_record cls bname (ambiguous_pairs st ! fst ir) (snd ir)]\<rparr>"
  from Cons.prems(1) have rest: "emit_adjudicated cls bname irs ?st = Inr st'"
    by (simp add: Let_def split: if_splits)
  have "\<forall>r \<in> set (page_records ?st). timestamp r = timestamp_default cls"
    using Cons.prems(2) by (simp add: adjudicated_record_def new_ProvenanceRecord_def)
  from Cons.IH [OF rest this] show ?case .
qed

lemma process_page_timestamps:
  assumes "process_page ratio config backend cls pn ts vs bst = Inr ((segs, recs), bst')"
  shows "\<forall>r \<in> set recs. timestamp r = timestamp_default cls"
proof -
  let ?st0 = "\<lparr>page_segments = [], page_records = [], ambiguous_pairs = []\<rparr>"
  from assms obtain st where
    loop: "select_loop config cls pn ts vs (enumerate 0 (align_segments ratio ts vs)) ?st0 = Inr st"
    by (auto simp: process_page_def Let_def split: sum.splits)
  have inv: "\<forall>r \<in> set (page_records st). timestamp r = timestamp_default cls"
    using select_loop_timestamps [OF loop] by simp
  show ?thesis
  proof (cases "backend = None \<or> ambiguous_pairs st = []")
    case True
    with assms loop have "recs = page_records st"
      by (auto simp: process_page_def Let_def split: option.splits)
    with inv show ?thesis by simp
  next
    case False
    then obtain be where be: "backend = Some be" and amb: "ambiguous_pairs st \<noteq> []"
      by auto
    from assms loop be amb obtain st1 where
      emit: "emit_adjudicated cls (backend_name be)
               (enumerate 0 (fst (adjudicate_batch (ambiguous_pairs st) be bst))) st = Inr st1"
      and recs: "recs = page_records st1"
      by (auto simp: process_page_def Let_def split: prod.splits sum.splits)
    from emit_adjudicated_timestamps [OF emit inv] recs show ?thesis by simp
  qed
qed

text \<open>
  Claim C10. The default of the timestamp field is fixed when the class is defined, so any
  two records constructed without an explicit timestamp carry the same timestamp, the
  one of the class definition, whatever their other fields are and whenever they are
  constructed. The pipeline constructs all its records that way, so every record of a
  page carries the timestamp of the class definition.
\<close>

theorem default_timestamp_shared:
  "timestamp (new_ProvenanceRecord (define_ProvenanceRecord t0) pn1 i1 s1 l1 a1 b1 c1 u1 None)
     = timestamp (new_ProvenanceRecord (define_ProvenanceRecord t0) pn2 i2 s2 l2 a2 b2 c2 u2 None)
   \<and> timestamp (new_ProvenanceRecord (define_ProvenanceRecord t0) pn1 i1 s1 l1 a1 b1 c1 u1 None) = t0
   \<and> (process_page ratio config backend (define_ProvenanceRecord t0) pn ts vs bst
         = Inr ((segs, recs), bst')
       \<longrightarrow> (\<forall>r \<in> set recs. timestamp r = t0))"
  using process_page_timestamps [of ratio config backend "define_ProvenanceRecord t0" pn ts vs bst
      segs recs bst']
  by (simp add: new_ProvenanceRecord_def define_ProvenanceRecord_def)

theorem default_timestamp_shared_witness:
  "map timestamp (snd (fst (projr (process_page indel_ratio
      \<lparr>score_margin = 0.15, ambiguity_band = 0.05\<rparr> (Some MockAdjudicatorBackend)
      (define_ProvenanceRecord 42) 0
      [\<lparr>seg_text = ''aaaa'', seg_start = 0, seg_end = 4, seg_type = SENTENCE\<rparr>,
       \<lparr>seg_text = ''bbbb'', seg_start = 4, seg_end = 8, seg_type = SENTENCE\<rparr>]
      [\<lparr>seg_text = ''aaaaaaa'', seg_start = 0, seg_end = 7, seg_type = SENTENCE\<rparr>,
       \<lparr>seg_text = ''bbbb'', seg_start = 7, seg_end = 11, seg_type = SENTENCE\<rparr>] ())))) = [42, 42]"
proof -
  let ?recs = "[\<lparr>page_num = 0, segment_idx = 1, prov_source = Src_T, llm_pick = None,
              t_score = 5 / 8, v_score = 5 / 8, chosen_text = ''bbbb'', backend_used = None,
              timestamp = 42\<rparr>,
             \<lparr>page_num = 0, segment_idx = 0, prov_source = Src_LLM, llm_pick = Some A,
              t_score = 5 / 8, v_score = 23 / 35, chosen_text = ''aaaa'',
              backend_used = Some ''MockAdjudicatorBackend'', timestamp = 42\<rparr>]"
  have run: "process_page indel_ratio
      \<lparr>score_margin = 0.15, ambiguity_band = 0.05\<rparr> (Some MockAdjudicatorBackend)
      (define_ProvenanceRecord 42) 0
      [\<lparr>seg_text = ''aaaa'', seg_start = 0, seg_end = 4, seg_type = SENTENCE\<rparr>,
       \<lparr>seg_text = ''bbbb'', seg_start = 4, seg_end = 8, seg_type = SENTENCE\<rparr>]
      [\<lparr>seg_text = ''aaaaaaa'', seg_start = 0, seg_end = 7, seg_type = SENTENCE\<rparr>,
       \<lparr>seg_text = ''bbbb'', seg_start = 7, seg_end = 11, seg_type = SENTENCE\<rparr>] ()
      = Inr (([''bbbb'', ''aaaa''], ?recs), ())"
    by code_simp
  from default_timestamp_shared [of 42 _ _ _ _ _ _ _ _ _ _ _ _ _ _ _ _
      indel_ratio "\<lparr>score_margin = 0.15, ambiguity_band = 0.05\<rparr>" "Some MockAdjudicatorBackend" 0
      "[\<lparr>seg_text = ''aaaa'', seg_start = 0, seg_end = 4, seg_type = SENTENCE\<rparr>,
       \<lparr>seg_text = ''bbbb'', seg_start = 4, seg_end = 8, seg_type = SENTENCE\<rparr>]"
      "[\<lparr>seg_text = ''aaaaaaa'', seg_start = 0, seg_end = 7, seg_type = SENTENCE\<rparr>,
       \<lparr>seg_text = ''bbbb'', seg_start = 7, seg_end = 11, seg_type = SENTENCE\<rparr>]" "()"
      "[''bbbb'', ''aaaa'']" ?recs "()"] run
  have "\<forall>r \<in> set ?recs. timestamp r = 42"
    by blast
  with run show ?thesis
    by simp
qed

section \<open>Properties of the Aligner\<close>

declare align_loop.simps [simp del]

lemma nth_upt_drop:
  "i \<le> j \<Longrightarrow> j \<le> length xs \<Longrightarrow> map ((!) xs) [i..<j] @ drop j xs = drop i xs"
proof (induction j)
  case 0
  then show ?case by simp
next
  case (Suc j)
  show ?case
  proof (cases "i = Suc j")
    case True
    then show ?thesis by simp
  next
    case False
    with Suc.prems have "i \<le> j" and "j < length xs" by simp_all
    with Suc.IH show ?thesis
      by (simp add: Cons_nth_drop_Suc)
  qed
qed

lemma map_filter_append:
  "List.map_filter f (xs @ ys) = List.map_filter f xs @ List.map_filter f ys"
  by (simp add: List.map_filter_def)

lemma sides_simps [simp]:
  "t_seg (t_only s) = Some s" "v_seg (t_only s) = None"
  "t_seg (v_only s) = None" "v_seg (v_only s) = Some s"
  "\<not> is_empty (t_only s)" "\<not> is_empty (v_only s)"
  by (simp_all add: t_only_def v_only_def is_empty_def)

lemma map_filter_v_only [simp]:
  "List.map_filter t_seg (map (\<lambda>i. v_only (f i)) xs) = []"
  "List.map_filter v_seg (map (\<lambda>i. v_only (f i)) xs) = map f xs"
  "filter is_empty (map (\<lambda>i. v_only (f i)) xs) = []"
  by (induction xs) simp_all

lemma align_loop_sides:
  "t_idx \<le> length ts \<Longrightarrow> v_idx \<le> length vs \<Longrightarrow>
   List.map_filter t_seg (align_loop ratio ts vs tt vt t_idx v_idx acc)
     = List.map_filter t_seg acc @ drop t_idx ts
   \<and> List.map_filter v_seg (align_loop ratio ts vs tt vt t_idx v_idx acc)
     = List.map_filter v_seg acc @ drop v_idx vs
   \<and> filter is_empty (align_loop ratio ts vs tt vt t_idx v_idx acc) = filter is_empty acc"
proof (induction ratio ts vs tt vt t_idx v_idx acc rule: align_loop.induct)
  case (1 ratio ts vs tt vt t_idx v_idx acc)
  define b where "b = best_match ratio (tt ! t_idx) vt v_idx (length vs)"
  consider (finished) "\<not> (t_idx < length ts \<or> v_idx < length vs)"
    | (v_rest) "t_idx \<ge> length ts" "v_idx < length vs"
    | (t_rest) "t_idx < length ts" "v_idx \<ge> length vs"
    | (match) "t_idx < length ts" "v_idx < length vs" "fst b > 50"
    | (nomatch) "t_idx < length ts" "v_idx < length vs" "\<not> fst b > 50"
    by linarith
  then show ?case
  proof cases
    case finished
    then show ?thesis
      using "1.prems" by (subst (1 2 3) align_loop.simps) simp
  next
    case v_rest
    then have "align_loop ratio ts vs tt vt t_idx v_idx acc
        = align_loop ratio ts vs tt vt t_idx (v_idx + 1) (acc @ [v_only (vs ! v_idx)])"
      by (simp add: align_loop.simps [of ratio ts vs tt vt t_idx v_idx acc])
    moreover from "1.IH"(1) v_rest "1.prems"
    have "List.map_filter t_seg (align_loop ratio ts vs tt vt t_idx (v_idx + 1) (acc @ [v_only (vs ! v_idx)]))
        = List.map_filter t_seg (acc @ [v_only (vs ! v_idx)]) @ drop t_idx ts
      \<and> List.map_filter v_seg (align_loop ratio ts vs tt vt t_idx (v_idx + 1) (acc @ [v_only (vs ! v_idx)]))
        = List.map_filter v_seg (acc @ [v_only (vs ! v_idx)]) @ drop (v_idx + 1) vs
      \<and> filter is_empty (align_loop ratio ts vs tt vt t_idx (v_idx + 1) (acc @ [v_only (vs ! v_idx)]))
        = filter is_empty (acc @ [v_only (vs ! v_idx)])"
      by simp
    ultimately show ?thesis
      using v_rest by (simp add: map_filter_append Cons_nth_drop_Suc)
  next
    case t_rest
    then have "align_loop ratio ts vs tt vt t_idx v_idx acc
        = align_loop ratio ts vs tt vt (t_idx + 1) v_idx (acc @ [t_only (ts ! t_idx)])"
      by (simp add: align_loop.simps [of ratio ts vs tt vt t_idx v_idx acc])
    moreover from "1.IH"(2) t_rest "1.prems"
    have "List.map_filter t_seg (align_loop ratio ts vs tt vt (t_idx + 1) v_idx (acc @ [t_only (ts ! t_idx)]))
        = List.map_filter t_seg (acc @ [t_only (ts ! t_idx)]) @ drop (t_idx + 1) ts
      \<and> List.map_filter v_seg (align_loop ratio ts vs tt vt (t_idx + 1) v_idx (acc @ [t_only (ts ! t_idx)]))
        = List.map_filter v_seg (acc @ [t_only (ts ! t_idx)]) @ drop v_idx vs
      \<and> filter is_empty (align_loop ratio ts vs tt vt (t_idx + 1) v_idx (acc @ [t_only (ts ! t_idx)]))
        = filter is_empty (acc @ [t_only (ts ! t_idx)])"
      by simp
    ultimately show ?thesis
      using t_rest by (simp add: map_filter_append Cons_nth_drop_Suc)
  next
    case match
    let ?m = "\<lparr>t_seg = Some (ts ! t_idx), v_seg = Some (vs ! snd b), similarity = fst b / 100\<rparr>"
    let ?acc = "acc @ map (\<lambda>i. v_only (vs ! i)) [v_idx ..< snd b] @ [?m]"
    have lo: "v_idx \<le> snd b" and hi: "snd b < length vs"
      using match best_match_lower [of v_idx ratio "tt ! t_idx" vt "length vs"]
        best_match_upper [of v_idx "length vs" ratio "tt ! t_idx" vt]
      by (simp_all add: b_def)
    have unf: "align_loop ratio ts vs tt vt t_idx v_idx acc
        = align_loop ratio ts vs tt vt (t_idx + 1) (snd b + 1) ?acc"
      using match by (simp add: align_loop.simps [of ratio ts vs tt vt t_idx v_idx acc] b_def Let_def)
    from "1.IH"(3) [OF _ _ _ b_def refl refl] match hi
    have ih: "List.map_filter t_seg (align_loop ratio ts vs tt vt (t_idx + 1) (snd b + 1) ?acc)
        = List.map_filter t_seg ?acc @ drop (t_idx + 1) ts
      \<and> List.map_filter v_seg (align_loop ratio ts vs tt vt (t_idx + 1) (snd b + 1) ?acc)
        = List.map_filter v_seg ?acc @ drop (snd b + 1) vs
      \<and> filter is_empty (align_loop ratio ts vs tt vt (t_idx + 1) (snd b + 1) ?acc)
        = filter is_empty ?acc"
      by simp
    have v: "map ((!) vs) [v_idx ..< snd b] @ vs ! snd b # drop (Suc (snd b)) vs = drop v_idx vs"
      using nth_upt_drop [OF lo, of vs] hi by (simp add: Cons_nth_drop_Suc)
    have ne: "\<not> is_empty ?m"
      by (simp add: is_empty_def)
    show ?thesis
      using match ih v ne unfolding unf
      by (simp add: map_filter_append Cons_nth_drop_Suc)
  next
    case nomatch
    then have "align_loop ratio ts vs tt vt t_idx v_idx acc
        = align_loop ratio ts vs tt vt (t_idx + 1) v_idx (acc @ [t_only (ts ! t_idx)])"
      by (simp add: align_loop.simps [of ratio ts vs tt vt t_idx v_idx acc] b_def Let_def)
    moreover from "1.IH"(4) [OF _ _ _ b_def refl refl] nomatch "1.prems"
    have "List.map_filter t_seg (align_loop ratio ts vs tt vt (t_idx + 1) v_idx (acc @ [t_only (ts ! t_idx)]))
        = List.map_filter t_seg (acc @ [t_only (ts ! t_idx)]) @ drop (t_idx + 1) ts
      \<and> List.map_filter v_seg (align_loop ratio ts vs tt vt (t_idx + 1) v_idx (acc @ [t_only (ts ! t_idx)]))
        = List.map_filter v_seg (acc @ [t_only (ts ! t_idx)]) @ drop v_idx vs
      \<and> filter is_empty (align_loop ratio ts vs tt vt (t_idx + 1) v_idx (acc @ [t_only (ts ! t_idx)]))
        = filter is_empty (acc @ [t_only (ts ! t_idx)])"
      by simp
    ultimately show ?thesis
      using nomatch by (simp add: map_filter_append Cons_nth_drop_Suc)
  qed
qed

text \<open>
  Claim C5. \<open>align_segments\<close> is a total function (its loop terminates for every pair
  of input sequences, empty ones included), and every input segment appears in exactly
  one output pair: the T sides of the output pairs, read in order, are the T sequence,
  the V sides are the V sequence, and no output pair has both sides absent.
\<close>

theorem align_segments_partition:
  "List.map_filter t_seg (align_segments ratio t_segments v_segments) = t_segments
   \<and> List.map_filter v_seg (align_segments ratio t_segments v_segments) = v_segments
   \<and> filter is_empty (align_segments ratio t_segments v_segments) = []"
  using align_loop_sides [of 0 t_segments 0 v_segments ratio
      "map (\<lambda>seg. normalize_text (seg_text seg)) t_segments"
      "map (\<lambda>seg. normalize_text (seg_text seg)) v_segments" "[]"]
  by (simp add: align_segments_def)

lemma fold_best_step_stay:
  "\<forall>i \<in> set xs. ratio t_text (v_texts ! i) \<le> fst b
     \<Longrightarrow> fold (best_step ratio t_text v_texts) xs b = b"
  by (induction xs) (simp_all add: best_step_def Let_def)

lemma best_match_identical:
  assumes refl: "\<And>x. ratio x x = 100" and bound: "\<And>x y. ratio x y \<le> 100"
    and k: "k < n" and x: "v_texts ! k = x"
  shows "best_match ratio x v_texts k n = (100, k)"
proof -
  have "[k ..< min (k + window_size) n] = k # [Suc k ..< min (k + window_size) n]"
    using k by (simp add: window_size_def upt_conv_Cons)
  moreover have "best_step ratio x v_texts k (0, k) = (100, k)"
    using refl x by (simp add: best_step_def)
  moreover have "fold (best_step ratio x v_texts) [Suc k ..< min (k + window_size) n] (100, k) = (100, k)"
    using bound by (intro fold_best_step_stay) simp
  ultimately show ?thesis
    by (simp add: best_match_def)
qed

lemma align_loop_identical:
  assumes refl: "\<And>x. ratio x x = 100" and bound: "\<And>x y. ratio x y \<le> 100"
  shows "k \<le> length S \<Longrightarrow>
    align_loop ratio S S (map f S) (map f S) k k acc
      = acc @ map (\<lambda>s. \<lparr>t_seg = Some s, v_seg = Some s, similarity = 1\<rparr>) (drop k S)"
proof (induction "length S - k" arbitrary: k acc)
  case 0
  then show ?case
    by (subst align_loop.simps) simp
next
  case (Suc d)
  then have k: "k < length S" by simp
  have bm: "best_match ratio (f (S ! k)) (map f S) k (length S) = (100, k)"
    using k by (intro best_match_identical refl bound) simp_all
  have "align_loop ratio S S (map f S) (map f S) k k acc
      = align_loop ratio S S (map f S) (map f S) (Suc k) (Suc k)
          (acc @ [\<lparr>t_seg = Some (S ! k), v_seg = Some (S ! k), similarity = 1\<rparr>])"
    using k by (subst align_loop.simps) (simp add: bm Let_def)
  also have "\<dots> = (acc @ [\<lparr>t_seg = Some (S ! k), v_seg = Some (S ! k), similarity = 1\<rparr>])
      @ map (\<lambda>s. \<lparr>t_seg = Some s, v_seg = Some s, similarity = 1\<rparr>) (drop (Suc k) S)"
    using Suc k by (intro Suc.hyps(1)) simp_all
  also have "\<dots> = acc @ map (\<lambda>s. \<lparr>t_seg = Some s, v_seg = Some s, similarity = 1\<rparr>) (drop k S)"
    using k by (simp add: Cons_nth_drop_Suc [symmetric])
  finally show ?case .
qed

text \<open>
  Claim C6. For every non-empty sequence S of segments, \<open>align_segments\<close> of S with
  itself returns exactly as many pairs as S has segments, and the k-th pair matches the
  k-th segment with itself at similarity 1.0. The similarity function of the library is
  taken with its contract: it returns 100 on equal strings and never more than 100.
\<close>

theorem align_identical_sequences:
  assumes "\<And>x. ratio x x = 100" and "\<And>x y. ratio x y \<le> 100" and "S \<noteq> []"
  shows "length (align_segments ratio S S) = length S
    \<and> (\<forall>k < length S. align_segments ratio S S ! k
          = \<lparr>t_seg = Some (S ! k), v_seg = Some (S ! k), similarity = 1\<rparr>)"
proof -
  have "align_loop ratio S S (map (\<lambda>seg. normalize_text (seg_text seg)) S)
          (map (\<lambda>seg. normalize_text (seg_text seg)) S) 0 0 []
        = [] @ map (\<lambda>s. \<lparr>t_seg = Some s, v_seg = Some s, similarity = 1\<rparr>) (drop 0 S)"
    by (rule align_loop_identical) (simp_all add: assms)
  with assms(3) show ?thesis
    by (simp add: align_segments_def)
qed

text \<open>The Indel similarity meets that contract.\<close>

lemma lcs_le: "lcs xs ys \<le> length xs \<and> lcs xs ys \<le> length ys"
  by (induction xs ys rule: lcs.induct) auto

lemma lcs_refl: "lcs xs xs = length xs"
  by (induction xs) simp_all

lemma indel_ratio_refl: "indel_ratio x x = 100"
  by (simp add: indel_ratio_def lcs_refl)

lemma indel_ratio_le: "indel_ratio x y \<le> 100"
proof -
  have "2 * lcs x y \<le> length x + length y"
    using lcs_le [of x y] by simp
  then have "real (2 * lcs x y) \<le> real (length x + length y)"
    by (rule of_nat_mono)
  then show ?thesis
    by (simp add: indel_ratio_def divide_le_eq del: of_nat_mult of_nat_add)
qed

theorem align_identical_sequences_witness:
  "align_segments indel_ratio
     [\<lparr>seg_text = ''Hello world'', seg_start = 0, seg_end = 11, seg_type = SENTENCE\<rparr>,
      \<lparr>seg_text = ''Goodbye'', seg_start = 11, seg_end = 18, seg_type = SENTENCE\<rparr>]
     [\<lparr>seg_text = ''Hello world'', seg_start = 0, seg_end = 11, seg_type = SENTENCE\<rparr>,
      \<lparr>seg_text = ''Goodbye'', seg_start = 11, seg_end = 18, seg_type = SENTENCE\<rparr>] ! 1
   = \<lparr>t_seg = Some \<lparr>seg_text = ''Goodbye'', seg_start = 11, seg_end = 18, seg_type = SENTENCE\<rparr>,
      v_seg = Some \<lparr>seg_text = ''Goodbye'', seg_start = 11, seg_end = 18, seg_type = SENTENCE\<rparr>,
      similarity = 1\<rparr>
   \<and> length (align_segments indel_ratio
     [\<lparr>seg_text = ''Hello world'', seg_start = 0, seg_end = 11, seg_type = SENTENCE\<rparr>,
      \<lparr>seg_text = ''Goodbye'', seg_start = 11, seg_end = 18, seg_type = SENTENCE\<rparr>]
     [\<lparr>seg_text = ''Hello world'', seg_start = 0, seg_end = 11, seg_type = SENTENCE\<rparr>,
      \<lparr>seg_text = ''Goodbye'', seg_start = 11, seg_end = 18, seg_type = SENTENCE\<rparr>]) = 2"
proof -
  let ?S = "[\<lparr>seg_text = ''Hello world'', seg_start = 0, seg_end = 11, seg_type = SENTENCE\<rparr>,
      \<lparr>seg_text = ''Goodbye'', seg_start = 11, seg_end = 18, seg_type = SENTENCE\<rparr>]"
  have h: "length (align_segments indel_ratio ?S ?S) = length ?S
    \<and> (\<forall>k < length ?S. align_segments indel_ratio ?S ?S ! k
          = \<lparr>t_seg = Some (?S ! k), v_seg = Some (?S ! k), similarity = 1\<rparr>)"
    by (rule align_identical_sequences) (simp_all add: indel_ratio_refl indel_ratio_le)
  then have "align_segments indel_ratio ?S ?S ! 1
      = \<lparr>t_seg = Some (?S ! 1), v_seg = Some (?S ! 1), similarity = 1\<rparr>"
    by simp
  with h show ?thesis
    by simp
qed

section \<open>A page without vision output\<close>

lemma align_loop_v_empty:
  "k \<le> length T \<Longrightarrow> align_loop ratio T [] tt [] k 0 acc = acc @ map t_only (drop k T)"
proof (induction "length T - k" arbitrary: k acc)
  case 0
  then show ?case
    by (subst align_loop.simps) simp
next
  case (Suc d)
  then have k: "k < length T" by simp
  have "align_loop ratio T [] tt [] k 0 acc = align_loop ratio T [] tt [] (Suc k) 0 (acc @ [t_only (T ! k)])"
    using k by (subst align_loop.simps) simp
  also have "\<dots> = (acc @ [t_only (T ! k)]) @ map t_only (drop (Suc k) T)"
    using Suc k by (intro Suc.hyps(1)) simp_all
  also have "\<dots> = acc @ map t_only (drop k T)"
    using k by (simp add: Cons_nth_drop_Suc [symmetric])
  finally show ?case .
qed

lemma align_segments_v_empty: "align_segments ratio T [] = map t_only T"
  using align_loop_v_empty [of 0 T ratio "map (\<lambda>seg. normalize_text (seg_text seg)) T" "[]"]
  by (simp add: align_segments_def)

lemma choose_segment_v_missing:
  "seg_text t \<noteq> [] \<Longrightarrow> choose_segment (Some t) None tsc vsc config
     = Inr \<lparr>source = Src_T, selected_text = seg_text t, reason = V_segment_missing\<rparr>"
  by (simp add: choose_segment_def truthy_def Segment_len_def)

lemma select_step_t_only:
  "seg_text t \<noteq> [] \<Longrightarrow> select_step config cls pn ts vs (i, t_only t) st
     = Inr (st\<lparr>page_segments := page_segments st @ [seg_text t],
               page_records := page_records st @
                 [new_ProvenanceRecord cls pn i Src_T None (score_segment t) 0 (seg_text t)
                    None None]\<rparr>)"
  by (simp add: select_step_def choose_segment_v_missing truthy_def Segment_len_def)

lemma select_loop_t_only:
  "\<forall>t \<in> set T. seg_text t \<noteq> [] \<Longrightarrow>
   select_loop config cls pn ts vs (enumerate n (map t_only T)) st
     = Inr (st\<lparr>page_segments := page_segments st @ map seg_text T,
               page_records := page_records st @
                 map (\<lambda>(i, t). new_ProvenanceRecord cls pn i Src_T None (score_segment t) 0
                                  (seg_text t) None None) (enumerate n T)\<rparr>)"
proof (induction T arbitrary: n st)
  case Nil
  show ?case by simp
next
  case (Cons t T)
  then show ?case
    by (simp add: select_step_t_only)
qed

text \<open>
  Claim C7. For every non-empty T sequence of segments with non-empty text and an empty
  V sequence, \<open>align_segments\<close> yields the pairs (T[i], None, 0.0) in order,
  \<open>choose_segment\<close> on each such pair returns source T with that segment's text, and
  the page emits, for every segment in order, its text and a record of source T.
\<close>

theorem empty_v_resolves_to_t:
  assumes "T \<noteq> []" and "\<forall>t \<in> set T. seg_text t \<noteq> []"
  shows "align_segments ratio T [] = map (\<lambda>t. \<lparr>t_seg = Some t, v_seg = None, similarity = 0\<rparr>) T
    \<and> (\<forall>t \<in> set T. choose_segment (Some t) None tsc vsc config
          = Inr \<lparr>source = Src_T, selected_text = seg_text t, reason = V_segment_missing\<rparr>)
    \<and> process_page ratio config backend cls pn T [] bst
        = Inr ((map seg_text T,
                map (\<lambda>(i, t). new_ProvenanceRecord cls pn i Src_T None (score_segment t) 0
                                 (seg_text t) None None) (enumerate 0 T)), bst)"
proof (intro conjI)
  show "align_segments ratio T [] = map (\<lambda>t. \<lparr>t_seg = Some t, v_seg = None, similarity = 0\<rparr>) T"
    using align_segments_v_empty [of ratio T] by (simp add: t_only_def [abs_def])
  show "\<forall>t \<in> set T. choose_segment (Some t) None tsc vsc config
          = Inr \<lparr>source = Src_T, selected_text = seg_text t, reason = V_segment_missing\<rparr>"
    using assms(2) by (simp add: choose_segment_v_missing)
  show "process_page ratio config backend cls pn T [] bst
        = Inr ((map seg_text T,
                map (\<lambda>(i, t). new_ProvenanceRecord cls pn i Src_T None (score_segment t) 0
                                 (seg_text t) None None) (enumerate 0 T)), bst)"
    using assms(2)
    by (cases backend) (simp_all add: process_page_def align_segments_v_empty select_loop_t_only)
qed

theorem empty_v_resolves_to_t_witness:
  "align_segments indel_ratio
     [\<lparr>seg_text = ''Hello world'', seg_start = 0, seg_end = 11, seg_type = SENTENCE\<rparr>] []
     = [\<lparr>t_seg = Some \<lparr>seg_text = ''Hello world'', seg_start = 0, seg_end = 11, seg_type = SENTENCE\<rparr>,
         v_seg = None, similarity = 0\<rparr>]
   \<and> choose_segment
        (Some \<lparr>seg_text = ''Hello world'', seg_start = 0, seg_end = 11, seg_type = SENTENCE\<rparr>)
        None 0.5 0 \<lparr>score_margin = 0.15, ambiguity_band = 0.05\<rparr>
     = Inr \<lparr>source = Src_T, selected_text = ''Hello world'', reason = V_segment_missing\<rparr>
   \<and> map prov_source (snd (fst (projr (process_page indel_ratio
        \<lparr>score_margin = 0.15, ambiguity_band = 0.05\<rparr> (None :: unit AdjudicatorBackend option)
        (define_ProvenanceRecord 0) 0
        [\<lparr>seg_text = ''Hello world'', seg_start = 0, seg_end = 11, seg_type = SENTENCE\<rparr>] [] ()))))
     = [Src_T]"
  using empty_v_resolves_to_t [of
      "[\<lparr>seg_text = ''Hello world'', seg_start = 0, seg_end = 11, seg_type = SENTENCE\<rparr>]"
      indel_ratio "0.5" 0 "\<lparr>score_margin = 0.15, ambiguity_band = 0.05\<rparr>"
      "None :: unit AdjudicatorBackend option" "define_ProvenanceRecord 0" 0 "()"]
  by (simp add: new_ProvenanceRecord_def)

section \<open>Properties of the Adjudicator Orchestrator\<close>

lemma adjudicate_batch_length_aux:
  "adjudicate_batch pairs backend st = (results, st') \<Longrightarrow> length results = length pairs"
  by (induction pairs arbitrary: st results st') (auto split: prod.splits sum.splits)

lemma adjudicate_batch_length:
  "length (fst (adjudicate_batch pairs backend st)) = length pairs"
  using adjudicate_batch_length_aux [of pairs backend st] by (cases "adjudicate_batch pairs backend st") simp

lemma adjudicate_batch_Cons_fst:
  "fst (adjudicate_batch (pair # pairs) backend st) =
     (case fst (select_call backend st pair) of
        Inl e \<Rightarrow> \<lparr>pick = A, res_text = seg_text (amb_t_seg pair)\<rparr>
      | Inr result \<Rightarrow> result)
     # fst (adjudicate_batch pairs backend (snd (select_call backend st pair)))"
  by (auto split: prod.splits sum.splits)

lemma adjudicate_batch_Cons_snd:
  "snd (adjudicate_batch (pair # pairs) backend st) =
     snd (adjudicate_batch pairs backend (snd (select_call backend st pair)))"
  by (auto split: prod.splits sum.splits)

lemma adjudicate_batch_nth:
  "k < length pairs \<Longrightarrow>
   fst (adjudicate_batch pairs backend st) ! k =
     (case fst (select_call backend (snd (adjudicate_batch (take k pairs) backend st)) (pairs ! k)) of
        Inl e \<Rightarrow> \<lparr>pick = A, res_text = seg_text (amb_t_seg (pairs ! k))\<rparr>
      | Inr result \<Rightarrow> result)"
proof (induction pairs arbitrary: k st)
  case Nil
  then show ?case by simp
next
  case (Cons pair pairs)
  show ?case
  proof (cases k)
    case 0
    then show ?thesis
      by (simp add: adjudicate_batch_Cons_fst del: adjudicate_batch.simps(2) split: sum.splits)
  next
    case (Suc j)
    with Cons.prems have "j < length pairs" by simp
    from Cons.IH [OF this, of "snd (select_call backend st pair)"] Suc show ?thesis
      by (simp add: adjudicate_batch_Cons_fst adjudicate_batch_Cons_snd
          del: adjudicate_batch.simps(2) split: sum.splits)
  qed
qed

lemma emit_adjudicated_appends:
  "n + length results \<le> length (ambiguous_pairs ps) \<Longrightarrow>
   emit_adjudicated cls bname (enumerate n results) ps =
     Inr (ps\<lparr>page_segments := page_segments ps @
                 map (\<lambda>(i, r). adjudicated_text (ambiguous_pairs ps ! i) r) (enumerate n results),
               page_records := page_records ps @
                 map (\<lambda>(i, r). adjudicated_record cls bname (ambiguous_pairs ps ! i) r)
                   (enumerate n results)\<rparr>)"
proof (induction results arbitrary: n ps)
  case Nil
  show ?case by simp
next
  case (Cons r results)
  let ?ps = "ps\<lparr>page_segments := page_segments ps @ [adjudicated_text (ambiguous_pairs ps ! n) r],
                  page_records := page_records ps @
                    [adjudicated_record cls bname (ambiguous_pairs ps ! n) r]\<rparr>"
  from Cons.prems have "Suc n + length results \<le> length (ambiguous_pairs ?ps)" by simp
  from Cons.IH [OF this] Cons.prems show ?case
    by (simp add: Let_def)
qed

text \<open>
  Claim C4, amended. For every batch of ambiguous pairs and every backend, if \<open>select\<close>
  raises an exception for the k-th pair, then \<open>adjudicate_batch\<close> still returns one
  resolution per input pair, in input order (the j-th resolution is what \<open>select\<close>
  returned for the j-th pair, or the fallback when it raised), the resolution of the
  k-th pair is pick A with the text of its T segment, and the record that the pipeline
  then appends for that pair has source LLM with pick A and the T text as chosen text.
\<close>

theorem adjudicate_batch_fallback:
  assumes "k < length (ambiguous_pairs ps)"
    and "fst (select_call backend
               (snd (adjudicate_batch (take k (ambiguous_pairs ps)) backend st))
               (ambiguous_pairs ps ! k)) = Inl e"
  shows "length (fst (adjudicate_batch (ambiguous_pairs ps) backend st)) = length (ambiguous_pairs ps)
    \<and> (\<forall>j < length (ambiguous_pairs ps).
          fst (adjudicate_batch (ambiguous_pairs ps) backend st) ! j =
            (case fst (select_call backend
                        (snd (adjudicate_batch (take j (ambiguous_pairs ps)) backend st))
                        (ambiguous_pairs ps ! j)) of
               Inl e \<Rightarrow> \<lparr>pick = A, res_text = seg_text (amb_t_seg (ambiguous_pairs ps ! j))\<rparr>
             | Inr result \<Rightarrow> result))
    \<and> fst (adjudicate_batch (ambiguous_pairs ps) backend st) ! k
        = \<lparr>pick = A, res_text = seg_text (amb_t_seg (ambiguous_pairs ps ! k))\<rparr>
    \<and> (\<exists>ps'. emit_adjudicated cls bname
                (enumerate 0 (fst (adjudicate_batch (ambiguous_pairs ps) backend st))) ps = Inr ps'
          \<and> length (page_records ps') = length (page_records ps) + length (ambiguous_pairs ps)
          \<and> prov_source (page_records ps' ! (length (page_records ps) + k)) = Src_LLM
          \<and> llm_pick (page_records ps' ! (length (page_records ps) + k)) = Some A
          \<and> chosen_text (page_records ps' ! (length (page_records ps) + k))
              = seg_text (amb_t_seg (ambiguous_pairs ps ! k))
          \<and> segment_idx (page_records ps' ! (length (page_records ps) + k))
              = amb_segment_idx (ambiguous_pairs ps ! k))"
proof -
  let ?pairs = "ambiguous_pairs ps"
  let ?results = "fst (adjudicate_batch ?pairs backend st)"
  have len: "length ?results = length ?pairs"
    by (rule adjudicate_batch_length)
  have nth: "?results ! k = \<lparr>pick = A, res_text = seg_text (amb_t_seg (?pairs ! k))\<rparr>"
    using adjudicate_batch_nth [OF assms(1), of backend st] assms(2) by simp
  have emit: "emit_adjudicated cls bname (enumerate 0 ?results) ps =
     Inr (ps\<lparr>page_segments := page_segments ps @
                 map (\<lambda>(i, r). adjudicated_text (?pairs ! i) r) (enumerate 0 ?results),
               page_records := page_records ps @
                 map (\<lambda>(i, r). adjudicated_record cls bname (?pairs ! i) r)
                   (enumerate 0 ?results)\<rparr>)"
    using len by (intro emit_adjudicated_appends) simp
  have rec: "(page_records ps @
                 map (\<lambda>(i, r). adjudicated_record cls bname (?pairs ! i) r)
                   (enumerate 0 ?results)) ! (length (page_records ps) + k)
      = adjudicated_record cls bname (?pairs ! k) (?results ! k)"
    using assms(1) len by (simp add: nth_append nth_enumerate_eq)
  show ?thesis
    using len nth emit rec adjudicate_batch_nth [of _ ?pairs backend st]
    by (simp add: adjudicated_record_def adjudicated_text_def new_ProvenanceRecord_def)
qed

text \<open>
  Claim C4, as stated, fails in its last part: on a page with one ambiguous pair and a
  backend whose \<open>select\<close> always raises, the record emitted for the pair has source LLM.
\<close>

theorem failing_backend_record_is_llm:
  "process_page indel_ratio \<lparr>score_margin = 0.15, ambiguity_band = 0.05\<rparr> (Some FailingBackend)
     (define_ProvenanceRecord 0) 0
     [\<lparr>seg_text = ''aaaa'', seg_start = 0, seg_end = 4, seg_type = SENTENCE\<rparr>]
     [\<lparr>seg_text = ''aaaaaaa'', seg_start = 0, seg_end = 7, seg_type = SENTENCE\<rparr>] ()
   = Inr (([''aaaa''],
           [\<lparr>page_num = 0, segment_idx = 0, prov_source = Src_LLM, llm_pick = Some A,
             t_score = 5 / 8, v_score = 23 / 35, chosen_text = ''aaaa'',
             backend_used = Some ''FailingBackend'', timestamp = 0\<rparr>]), ())"
  by code_simp

theorem adjudicate_batch_fallback_witness:
  "fst (adjudicate_batch
     [\<lparr>amb_t_seg = \<lparr>seg_text = ''aaaa'', seg_start = 0, seg_end = 4, seg_type = SENTENCE\<rparr>,
       amb_v_seg = \<lparr>seg_text = ''aaaaaaa'', seg_start = 0, seg_end = 7, seg_type = SENTENCE\<rparr>,
       context_before = [], context_after = [], amb_page_num = 0, amb_segment_idx = 0\<rparr>]
     FailingBackend ()) ! 0 = \<lparr>pick = A, res_text = ''aaaa''\<rparr>"
  using adjudicate_batch_fallback [of 0
     "\<lparr>page_segments = [], page_records = [], ambiguous_pairs =
       [\<lparr>amb_t_seg = \<lparr>seg_text = ''aaaa'', seg_start = 0, seg_end = 4, seg_type = SENTENCE\<rparr>,
         amb_v_seg = \<lparr>seg_text = ''aaaaaaa'', seg_start = 0, seg_end = 7, seg_type = SENTENCE\<rparr>,
         context_before = [], context_after = [], amb_page_num = 0, amb_segment_idx = 0\<rparr>]\<rparr>"
     FailingBackend "()" "Exception ''timeout''"]
  by (simp add: select_call_def FailingBackend_def failing_select_def)

section \<open>Context construction in the pipeline\<close>

text \<open>Within the sequence, and one position past its end, \<open>build_context\<close> returns.\<close>

lemma build_context_in_range:
  "idx \<le> length segments \<Longrightarrow> \<exists>ctx. build_context segments idx max_length = Inr ctx"
  by (auto simp: build_context_def Let_def)

text \<open>
  Claim C9. \<open>build_context\<close> reads \<open>segments[idx - 1]\<close> unguarded whenever
  \<open>idx > 0\<close>, so it raises IndexError for every index greater than the length of the
  sequence. The pipeline passes the position of the pair in the aligned sequence together
  with the T sequence, and that position can exceed the length of the T sequence when
  V-only pairs precede the ambiguous pair: with one T segment and three V segments of
  which the third matches, the ambiguous pair has position 2 and the page raises
  IndexError.
\<close>

theorem build_context_index_error:
  "(length segments < idx \<longrightarrow> build_context segments idx max_length = Inl IndexError)
   \<and> align_segments indel_ratio
        [\<lparr>seg_text = ''aaaa'', seg_start = 0, seg_end = 4, seg_type = SENTENCE\<rparr>]
        [\<lparr>seg_text = ''-'', seg_start = 0, seg_end = 1, seg_type = SENTENCE\<rparr>,
         \<lparr>seg_text = ''-'', seg_start = 1, seg_end = 2, seg_type = SENTENCE\<rparr>,
         \<lparr>seg_text = ''aaaaaaa'', seg_start = 2, seg_end = 9, seg_type = SENTENCE\<rparr>]
       = [\<lparr>t_seg = None,
           v_seg = Some \<lparr>seg_text = ''-'', seg_start = 0, seg_end = 1, seg_type = SENTENCE\<rparr>,
           similarity = 0\<rparr>,
          \<lparr>t_seg = None,
           v_seg = Some \<lparr>seg_text = ''-'', seg_start = 1, seg_end = 2, seg_type = SENTENCE\<rparr>,
           similarity = 0\<rparr>,
          \<lparr>t_seg = Some \<lparr>seg_text = ''aaaa'', seg_start = 0, seg_end = 4, seg_type = SENTENCE\<rparr>,
           v_seg = Some \<lparr>seg_text = ''aaaaaaa'', seg_start = 2, seg_end = 9, seg_type = SENTENCE\<rparr>,
           similarity = 8 / 11\<rparr>]
   \<and> process_page indel_ratio \<lparr>score_margin = 0.15, ambiguity_band = 0.05\<rparr>
        (Some MockAdjudicatorBackend) (define_ProvenanceRecord 0) 0
        [\<lparr>seg_text = ''aaaa'', seg_start = 0, seg_end = 4, seg_type = SENTENCE\<rparr>]
        [\<lparr>seg_text = ''-'', seg_start = 0, seg_end = 1, seg_type = SENTENCE\<rparr>,
         \<lparr>seg_text = ''-'', seg_start = 1, seg_end = 2, seg_type = SENTENCE\<rparr>,
         \<lparr>seg_text = ''aaaaaaa'', seg_start = 2, seg_end = 9, seg_type = SENTENCE\<rparr>] ()
       = Inl IndexError"
proof (intro conjI)
  show "length segments < idx \<longrightarrow> build_context segments idx max_length = Inl IndexError"
    by (auto simp: build_context_def)
  show "align_segments indel_ratio
        [\<lparr>seg_text = ''aaaa'', seg_start = 0, seg_end = 4, seg_type = SENTENCE\<rparr>]
        [\<lparr>seg_text = ''-'', seg_start = 0, seg_end = 1, seg_type = SENTENCE\<rparr>,
         \<lparr>seg_text = ''-'', seg_start = 1, seg_end = 2, seg_type = SENTENCE\<rparr>,
         \<lparr>seg_text = ''aaaaaaa'', seg_start = 2, seg_end = 9, seg_type = SENTENCE\<rparr>]
       = [\<lparr>t_seg = None,
           v_seg = Some \<lparr>seg_text = ''-'', seg_start = 0, seg_end = 1, seg_type = SENTENCE\<rparr>,
           similarity = 0\<rparr>,
          \<lparr>t_seg = None,
           v_seg = Some \<lparr>seg_text = ''-'', seg_start = 1, seg_end = 2, seg_type = SENTENCE\<rparr>,
           similarity = 0\<rparr>,
          \<lparr>t_seg = Some \<lparr>seg_text = ''aaaa'', seg_start = 0, seg_end = 4, seg_type = SENTENCE\<rparr>,
           v_seg = Some \<lparr>seg_text = ''aaaaaaa'', seg_start = 2, seg_end = 9, seg_type = SENTENCE\<rparr>,
           similarity = 8 / 11\<rparr>]"
    by code_simp
  show "process_page indel_ratio \<lparr>score_margin = 0.15, ambiguity_band = 0.05\<rparr>
        (Some MockAdjudicatorBackend) (define_ProvenanceRecord 0) 0
        [\<lparr>seg_text = ''aaaa'', seg_start = 0, seg_end = 4, seg_type = SENTENCE\<rparr>]
        [\<lparr>seg_text = ''-'', seg_start = 0, seg_end = 1, seg_type = SENTENCE\<rparr>,
         \<lparr>seg_text = ''-'', seg_start = 1, seg_end = 2, seg_type = SENTENCE\<rparr>,
         \<lparr>seg_text = ''aaaaaaa'', seg_start = 2, seg_end = 9, seg_type = SENTENCE\<rparr>] ()
       = Inl IndexError"
    by code_simp
qed

theorem build_context_index_error_witness:
  "(0::nat) < 1 \<and> build_context [] 1 200 = Inl IndexError"
  using build_context_index_error [of "[]" 1 200] by simp

section \<open>Properties of the page assembly\<close>

text \<open>
  Claim C1. The source does not emit one segment and one record per aligned pair in
  segment-index order. On a page whose single aligned pair is ambiguous, with no
  adjudicator configured, nothing is emitted for the pair: the markdown and the record
  list are empty. With an adjudicator, the resolution of an ambiguous pair is appended
  after the deterministic choices of the page: on a page whose first pair is ambiguous
  and whose second is not, the records come out with segment indices 1, 0 and the
  markdown starts with the second segment.
\<close>

theorem ambiguous_pairs_dropped_or_reordered:
  "align_segments indel_ratio
     [\<lparr>seg_text = ''aaaa'', seg_start = 0, seg_end = 4, seg_type = SENTENCE\<rparr>]
     [\<lparr>seg_text = ''aaaaaaa'', seg_start = 0, seg_end = 7, seg_type = SENTENCE\<rparr>]
   = [\<lparr>t_seg = Some \<lparr>seg_text = ''aaaa'', seg_start = 0, seg_end = 4, seg_type = SENTENCE\<rparr>,
       v_seg = Some \<lparr>seg_text = ''aaaaaaa'', seg_start = 0, seg_end = 7, seg_type = SENTENCE\<rparr>,
       similarity = 8 / 11\<rparr>]
   \<and> pipeline_extract indel_ratio \<lparr>score_margin = 0.15, ambiguity_band = 0.05\<rparr>
       (None :: unit AdjudicatorBackend option) (define_ProvenanceRecord 0)
       [([\<lparr>seg_text = ''aaaa'', seg_start = 0, seg_end = 4, seg_type = SENTENCE\<rparr>],
         [\<lparr>seg_text = ''aaaaaaa'', seg_start = 0, seg_end = 7, seg_type = SENTENCE\<rparr>])] ()
     = Inr ([], [])
   \<and> pipeline_extract indel_ratio \<lparr>score_margin = 0.15, ambiguity_band = 0.05\<rparr>
       (Some MockAdjudicatorBackend) (define_ProvenanceRecord 0)
       [([\<lparr>seg_text = ''aaaa'', seg_start = 0, seg_end = 4, seg_type = SENTENCE\<rparr>,
          \<lparr>seg_text = ''bbbb'', seg_start = 4, seg_end = 8, seg_type = SENTENCE\<rparr>],
         [\<lparr>seg_text = ''aaaaaaa'', seg_start = 0, seg_end = 7, seg_type = SENTENCE\<rparr>,
          \<lparr>seg_text = ''bbbb'', seg_start = 7, seg_end = 11, seg_type = SENTENCE\<rparr>])] ()
     = Inr (''bbbb'' @ [CHR 0x0A, CHR 0x0A] @ ''aaaa'',
            [\<lparr>page_num = 0, segment_idx = 1, prov_source = Src_T, llm_pick = None,
              t_score = 5 / 8, v_score = 5 / 8, chosen_text = ''bbbb'', backend_used = None,
              timestamp = 0\<rparr>,
             \<lparr>page_num = 0, segment_idx = 0, prov_source = Src_LLM, llm_pick = Some A,
              t_score = 5 / 8, v_score = 23 / 35, chosen_text = ''aaaa'',
              backend_used = Some ''MockAdjudicatorBackend'', timestamp = 0\<rparr>])"
  by code_simp

end
